theory Spec2Isabelle
  imports Main "HOL-Library.Sublist"
begin

section \<open>JavaScript values used by the webhook handler\<close>

subsection \<open>Strings\<close>

text \<open>
  The strings that \<^verbatim>\<open>parseInt\<close> reads are lists of UTF-16 code units, as JavaScript
  has them: white space beyond ASCII counts there. The other strings (event type, error
  message and code, secret, identifiers) are only compared for equality or searched for
  an ASCII literal, which gives the same answer on the bytes of their UTF-8 form; they
  are byte strings.
\<close>

type_synonym utf16 = "nat list"

text \<open>The code units of an ASCII text.\<close>

definition code_units :: "string \<Rightarrow> utf16" where
  "code_units s = map of_char s"

text \<open>
  A property that may be absent is an option. \<^verbatim>\<open>a || b\<close> yields \<open>a\<close> unless \<open>a\<close> is
  falsy: \<^verbatim>\<open>undefined\<close> or the empty string.
\<close>

definition falsy :: "'a list option \<Rightarrow> bool" where
  "falsy a = (case a of None \<Rightarrow> True | Some s \<Rightarrow> s = [])"

definition js_or :: "'a list option \<Rightarrow> 'a list option \<Rightarrow> 'a list option" where
  "js_or a b = (if falsy a then b else a)"

text \<open>\<^verbatim>\<open>a || '0'\<close> with a string literal on the right always is a string.\<close>

definition js_or_lit :: "'a list option \<Rightarrow> 'a list \<Rightarrow> 'a list" where
  "js_or_lit a d = (case a of None \<Rightarrow> d | Some s \<Rightarrow> if s = [] then d else s)"

subsection \<open>String.prototype.includes\<close>

fun startsWith :: "'a list \<Rightarrow> 'a list \<Rightarrow> bool" where
  "startsWith s [] = True"
| "startsWith [] (p # ps) = False"
| "startsWith (c # s) (p # ps) = (c = p \<and> startsWith s ps)"

fun includes_str :: "string \<Rightarrow> string \<Rightarrow> bool" where
  "includes_str [] p = (p = [])"
| "includes_str (c # s) p = (startsWith (c # s) p \<or> includes_str s p)"

subsection \<open>Numbers\<close>

text \<open>
  A JavaScript number is a double. \<^verbatim>\<open>parseInt\<close> yields \<open>NaN\<close>, an integer that a
  double holds exactly, or an infinity; \<open>Num 0\<close> stands for both zeros, which the
  handler cannot tell apart.
\<close>

datatype number = NaN | Num int | PosInfinity | NegInfinity

text \<open>\<^verbatim>\<open>x <= 0\<close>: every comparison with \<open>NaN\<close> is false.\<close>

definition le_zero :: "number \<Rightarrow> bool" where
  "le_zero x = (case x of NaN \<Rightarrow> False | Num n \<Rightarrow> n \<le> 0 | PosInfinity \<Rightarrow> False | NegInfinity \<Rightarrow> True)"

text \<open>The number of binary digits of a natural number.\<close>

function bitLength :: "nat \<Rightarrow> nat" where
  "bitLength n = (if n = 0 then 0 else Suc (bitLength (n div 2)))"
  by pat_completeness auto
termination
  by (relation "measure (\<lambda>n. n)") auto

declare bitLength.simps [simp del]

text \<open>
  The double nearest to a natural number, ties to the even significand of 53 bits;
  \<open>None\<close> when the result is beyond the largest double, which is infinity. Below
  \<open>2^53\<close> every natural number is a double. Beyond 20 significant decimal digits
  ECMAScript lets an implementation approximate the value; the model rounds the exact
  value.
\<close>

definition toDouble :: "nat \<Rightarrow> nat option" where
  "toDouble m =
     (if m < 2 ^ 53 then Some m
      else (let e = bitLength m - 53;
                q = m div 2 ^ e;
                r = m mod 2 ^ e;
                half = 2 ^ (e - 1);
                q' = (if half < r \<or> (r = half \<and> odd q) then q + 1 else q);
                v = q' * 2 ^ e
            in if 2 ^ 1024 \<le> v then None else Some v))"

subsection \<open>parseInt without a radix\<close>

text \<open>
  The ECMAScript algorithm: skip leading white space, read a sign, switch to radix 16
  after a \<^verbatim>\<open>0x\<close> or \<^verbatim>\<open>0X\<close> prefix, take the longest prefix of digits of the radix,
  return \<open>NaN\<close> when that prefix is empty, and the double of the signed value otherwise.
  White space is \<^verbatim>\<open>StrWhiteSpaceChar\<close>: tab, line feed, vertical tab, form feed,
  carriage return, space, no-break space, the other space separators of Unicode
  (U+1680, U+2000 to U+200A, U+202F, U+205F, U+3000), the line and paragraph separators
  U+2028 and U+2029, and the byte order mark U+FEFF.
\<close>

definition isWhiteSpace :: "nat \<Rightarrow> bool" where
  "isWhiteSpace c =
     ((9 \<le> c \<and> c \<le> 13) \<or> c = 32 \<or> c = 160 \<or> c = 5760 \<or> (8192 \<le> c \<and> c \<le> 8202) \<or>
      c = 8232 \<or> c = 8233 \<or> c = 8239 \<or> c = 8287 \<or> c = 12288 \<or> c = 65279)"

definition digit_value :: "nat \<Rightarrow> nat option" where
  "digit_value c =
     (if 48 \<le> c \<and> c \<le> 57 then Some (c - 48)
      else if 97 \<le> c \<and> c \<le> 122 then Some (c - 87)
      else if 65 \<le> c \<and> c \<le> 90 then Some (c - 55)
      else None)"

definition is_digit :: "nat \<Rightarrow> nat \<Rightarrow> bool" where
  "is_digit R c = (case digit_value c of None \<Rightarrow> False | Some d \<Rightarrow> d < R)"

definition math_int :: "nat \<Rightarrow> utf16 \<Rightarrow> nat" where
  "math_int R z =
     foldl (\<lambda>acc c. acc * R + (case digit_value c of None \<Rightarrow> 0 | Some d \<Rightarrow> d)) 0 z"

text \<open>The code units 43, 45, 48, 88 and 120 are \<^verbatim>\<open>+\<close>, \<^verbatim>\<open>-\<close>, \<^verbatim>\<open>0\<close>, \<^verbatim>\<open>X\<close> and \<^verbatim>\<open>x\<close>.\<close>

definition parseInt :: "utf16 \<Rightarrow> number" where
  "parseInt inputString =
     (let S = dropWhile isWhiteSpace inputString;
          negative = startsWith S [45];
          S1 = (if startsWith S [43] \<or> startsWith S [45] then tl S else S);
          hex = (startsWith S1 [48, 120] \<or> startsWith S1 [48, 88]);
          R = (if hex then 16 else 10);
          S2 = (if hex then drop 2 S1 else S1);
          Z = takeWhile (is_digit R) S2
      in if Z = [] then NaN
         else (case toDouble (math_int R Z) of
                 None \<Rightarrow> if negative then NegInfinity else PosInfinity
               | Some v \<Rightarrow> Num (if negative then - int v else int v)))"

section \<open>The Stripe webhook: \<^verbatim>\<open>POST /api/webhook/stripe\<close>\<close>

subsection \<open>Requests, events, errors and responses\<close>

text \<open>\<^verbatim>\<open>process.env\<close>: the two variables the handler reads.\<close>

record env =
  STRIPE_WEBHOOK_SECRET :: "string option"
  STRIPE_SECRET_KEY :: "string option"

text \<open>The raw body and the \<^verbatim>\<open>stripe-signature\<close> header.\<close>

record request =
  body :: string
  stripe_signature :: "string option"

record metadata =
  user_id :: "utf16 option"
  tokens :: "utf16 option"

text \<open>\<^verbatim>\<open>event.data.object\<close> of a checkout event; \<open>cs_id\<close> is its \<^verbatim>\<open>id\<close>.\<close>

record checkout_session =
  cs_id :: string
  cs_metadata :: "metadata option"
  client_reference_id :: "utf16 option"

record event =
  event_id :: string
  event_type :: string
  data_object :: checkout_session

text \<open>A thrown error object, with the two properties the handler inspects.\<close>

record js_error =
  message :: "string option"
  code :: "string option"

datatype payload = Json_error string | Json_received | Text string

record response =
  statusCode :: nat
  sent :: payload

text \<open>
  The response object is the list of the responses sent on it so far, in order:
  \<^verbatim>\<open>res.status(c).json(b)\<close>, \<^verbatim>\<open>res.status(c).send(b)\<close> and \<^verbatim>\<open>res.sendStatus(c)\<close>
  each add one.
\<close>

type_synonym res = "response list"

definition respond :: "nat \<Rightarrow> payload \<Rightarrow> res \<Rightarrow> res" where
  "respond c p out = out @ [\<lparr>statusCode = c, sent = p\<rparr>]"

text \<open>What \<^verbatim>\<open>storage.completeStripePaymentAndCredit\<close> resolves to.\<close>

record credit_result =
  alreadyCompleted :: bool
  newBalance :: int

text \<open>
  The Stripe library is external. \<open>constructEvent\<close> stands for the library calls of the
  first \<^verbatim>\<open>try\<close> block (loading the module, building the client with the API key and
  \<^verbatim>\<open>stripe.webhooks.constructEvent\<close>): it takes the API key, the raw body, the
  signature header and the secret, and either throws or returns the verified event.

  The storage module is a parameter of the handler: a function from the three arguments
  and the store to what it throws or returns, and the store it leaves behind. It stands
  for the loading of the module and the call.
\<close>

type_synonym stripe_lib = "string option \<Rightarrow> string \<Rightarrow> string option \<Rightarrow> string \<Rightarrow> js_error + event"

type_synonym 'st storage =
  "string \<Rightarrow> number \<Rightarrow> number \<Rightarrow> 'st \<Rightarrow> (js_error + credit_result) \<times> 'st"

subsection \<open>The handler\<close>

text \<open>
  The handler of \<^verbatim>\<open>server/index.ts\<close>, lines 8 to 80. Console logging is left out: it
  changes neither the response nor the store. Thrown values are error objects.
  \<^verbatim>\<open>error.message?.includes(p)\<close> is falsy when the error has no message.
\<close>

definition message_includes :: "js_error \<Rightarrow> string \<Rightarrow> bool" where
  "message_includes error p = (case message error of None \<Rightarrow> False | Some m \<Rightarrow> includes_str m p)"

text \<open>The condition of the \<^verbatim>\<open>if\<close> in the inner \<^verbatim>\<open>catch\<close> block, lines 64 to 67.\<close>

definition isTransient :: "js_error \<Rightarrow> bool" where
  "isTransient error =
     (message_includes error ''connection'' \<or>
      message_includes error ''timeout'' \<or>
      message_includes error ''ECONNREFUSED'' \<or>
      code error = Some ''ENETUNREACH'')"

text \<open>
  The three tests of the error's message alone: the message carries a connection or
  timeout marker.
\<close>

definition message_marker :: "js_error \<Rightarrow> bool" where
  "message_marker error =
     (message_includes error ''connection'' \<or>
      message_includes error ''timeout'' \<or>
      message_includes error ''ECONNREFUSED'')"

definition received :: response where
  "received = \<lparr>statusCode = 200, sent = Json_received\<rparr>"

text \<open>The inner \<^verbatim>\<open>catch\<close> block, lines 60 to 74.\<close>

definition catch_reconciliation :: "js_error \<Rightarrow> res \<Rightarrow> res" where
  "catch_reconciliation error out =
     (if isTransient error
      then respond 500 (Json_error ''Temporary error, please retry'') out
      else respond 200 Json_received out)"

text \<open>
  Lines 38 and 39: \<^verbatim>\<open>parseInt(session.metadata?.user_id || session.client_reference_id || '0')\<close>
  and \<^verbatim>\<open>parseInt(session.metadata?.tokens || '0')\<close>.
\<close>

definition metadata_user_id :: "checkout_session \<Rightarrow> utf16 option" where
  "metadata_user_id session = (case cs_metadata session of None \<Rightarrow> None | Some m \<Rightarrow> user_id m)"

definition metadata_tokens :: "checkout_session \<Rightarrow> utf16 option" where
  "metadata_tokens session = (case cs_metadata session of None \<Rightarrow> None | Some m \<Rightarrow> tokens m)"

definition resolve_userId :: "checkout_session \<Rightarrow> number" where
  "resolve_userId session =
     parseInt (js_or_lit (js_or (metadata_user_id session) (client_reference_id session)) [48])"

definition resolve_tokens :: "checkout_session \<Rightarrow> number" where
  "resolve_tokens session = parseInt (js_or_lit (metadata_tokens session) [48])"

text \<open>
  The body of \<^verbatim>\<open>if (event.type === 'checkout.session.completed')\<close>, lines 33 to 74:
  every path of it sends a response and returns. The guard of line 41 acknowledges the
  event without touching the storage. Otherwise the storage is loaded and called; what
  it throws goes to the \<^verbatim>\<open>catch\<close> block, and both outcomes of a call that returns
  are answered with the same acknowledgment.
\<close>

definition process_completed ::
  "'st storage \<Rightarrow> checkout_session \<Rightarrow> res \<Rightarrow> 'st \<Rightarrow> res \<times> 'st" where
  "process_completed storage session out st =
     (let userId = resolve_userId session;
          tokens = resolve_tokens session
      in if le_zero userId \<or> le_zero tokens then (respond 200 Json_received out, st)
         else (case storage (cs_id session) userId tokens st of
                 (Inl error, st') \<Rightarrow> (catch_reconciliation error out, st')
               | (Inr result, st') \<Rightarrow>
                   (if alreadyCompleted result then (respond 200 Json_received out, st')
                    else (respond 200 Json_received out, st'))))"

text \<open>
  The event dispatch, lines 32 to 77. The flag tells whether the handler has returned
  from inside the branch; when it has not, control falls through to the final
  \<^verbatim>\<open>res.sendStatus(200)\<close>.
\<close>

definition dispatch :: "'st storage \<Rightarrow> event \<Rightarrow> res \<Rightarrow> 'st \<Rightarrow> bool \<times> res \<times> 'st" where
  "dispatch storage ev out st =
     (if event_type ev = ''checkout.session.completed''
      then (let (out', st') = process_completed storage (data_object ev) out st
            in (True, out', st'))
      else (False, out, st))"

text \<open>
  Lines 12 to 29 and 79: without the secret the handler answers 500 from inside the
  \<^verbatim>\<open>try\<close> block; whatever the library calls throw is answered with 400. The result
  is the list of responses sent and the store.
\<close>

definition webhook_handler ::
  "env \<Rightarrow> stripe_lib \<Rightarrow> 'st storage \<Rightarrow> request \<Rightarrow> 'st \<Rightarrow> res \<times> 'st" where
  "webhook_handler penv constructEvent storage req st =
     (if falsy (STRIPE_WEBHOOK_SECRET penv)
      then (respond 500 (Json_error ''Webhook not configured'') [], st)
      else (case constructEvent (STRIPE_SECRET_KEY penv) (body req) (stripe_signature req)
                   (case STRIPE_WEBHOOK_SECRET penv of None \<Rightarrow> [] | Some secret \<Rightarrow> secret)
            of Inl err \<Rightarrow> (respond 400 (Text ''Bad signature'') [], st)
             | Inr ev \<Rightarrow>
                 (case dispatch storage ev [] st of
                    (True, out, st') \<Rightarrow> (out, st')
                  | (False, out, st') \<Rightarrow> (respond 200 (Text ''OK'') out, st'))))"

section \<open>The session store\<close>

text \<open>
  Modelled from the spec: the records of the session store. The storage module
  (\<^verbatim>\<open>server/storage.ts\<close>) is not among the sources; the types follow the data model of
  the specification: a payment session with its status and completion stamp, and a token
  balance for every user identifier. \<open>now\<close> is the clock reading used for the stamp.
\<close>

datatype session_status = pending | completed | failed

record PaymentSession =
  sessionId :: string
  userId :: int
  tokenAmount :: int
  status :: session_status
  completedAt :: "nat option"

record store =
  sessions :: "string \<rightharpoonup> PaymentSession"
  balances :: "int \<Rightarrow> int"
  now :: nat

text \<open>Modelled from the spec: the error thrown for an unknown session.\<close>

definition session_not_found :: js_error where
  "session_not_found = \<lparr>message = Some ''Payment session not found'', code = None\<rparr>"

text \<open>
  Modelled from the spec: step 3 of the atomic complete-and-credit operation, which is not
  among the sources: set the status to \<open>completed\<close>, stamp the completion time and
  increment the user's balance by the token amount.
\<close>

definition credit_session :: "string \<Rightarrow> PaymentSession \<Rightarrow> int \<Rightarrow> int \<Rightarrow> store \<Rightarrow> store" where
  "credit_session sid s uid amount st =
     st\<lparr>sessions := (sessions st)(sid \<mapsto> s\<lparr>status := completed, completedAt := Some (now st)\<rparr>),
        balances := (balances st)(uid := balances st uid + amount)\<rparr>"

text \<open>
  Modelled from the spec: \<^verbatim>\<open>storage.completeStripePaymentAndCredit\<close>, which is not
  among the sources. Look the session up; if its status is \<open>completed\<close> already, change
  nothing and report \<open>alreadyCompleted = true\<close> with the current balance; otherwise do
  step 3 and report \<open>alreadyCompleted = false\<close> with the new balance. The operation is
  atomic: it is one function from store to store. The specification does not say what
  happens when the session is unknown: the model throws and leaves the store as it is.
\<close>

definition completeStripePaymentAndCredit ::
  "string \<Rightarrow> int \<Rightarrow> int \<Rightarrow> store \<Rightarrow> (js_error + credit_result) \<times> store" where
  "completeStripePaymentAndCredit sid uid amount st =
     (case sessions st sid of
        None \<Rightarrow> (Inl session_not_found, st)
      | Some s \<Rightarrow>
          if status s = completed
          then (Inr \<lparr>alreadyCompleted = True, newBalance = balances st uid\<rparr>, st)
          else (Inr \<lparr>alreadyCompleted = False, newBalance = balances st uid + amount\<rparr>,
                credit_session sid s uid amount st))"

text \<open>
  Modelled from the spec: the operation as the handler calls it, with JavaScript
  numbers. The specification gives the operation for integer arguments only; an
  argument that is \<open>NaN\<close> or an infinity is modelled as a thrown error that leaves the
  store as it is.
\<close>

definition invalid_argument :: js_error where
  "invalid_argument = \<lparr>message = Some ''invalid input syntax for type integer'', code = None\<rparr>"

definition store_storage :: "store storage" where
  "store_storage sid uidArg amountArg st =
     (case uidArg of
        Num uid \<Rightarrow>
          (case amountArg of
             Num amount \<Rightarrow> completeStripePaymentAndCredit sid uid amount st
           | _ \<Rightarrow> (Inl invalid_argument, st))
      | _ \<Rightarrow> (Inl invalid_argument, st))"

text \<open>\<open>n\<close> invocations with identical arguments, one after the other: the results in
  order and the final store.\<close>

fun invoke_times ::
  "nat \<Rightarrow> string \<Rightarrow> int \<Rightarrow> int \<Rightarrow> store \<Rightarrow> (js_error + credit_result) list \<times> store" where
  "invoke_times 0 sid uid amount st = ([], st)"
| "invoke_times (Suc n) sid uid amount st =
     (let (r, st1) = completeStripePaymentAndCredit sid uid amount st;
          (rs, st2) = invoke_times n sid uid amount st1
      in (r # rs, st2))"

text \<open>An invocation credits when it returns with \<open>alreadyCompleted = false\<close>.\<close>

definition credited :: "js_error + credit_result \<Rightarrow> bool" where
  "credited r = (case r of Inl e \<Rightarrow> False | Inr res \<Rightarrow> \<not> alreadyCompleted res)"

definition reports_alreadyCompleted :: "js_error + credit_result \<Rightarrow> bool" where
  "reports_alreadyCompleted r = (case r of Inl e \<Rightarrow> False | Inr res \<Rightarrow> alreadyCompleted res)"

text \<open>The same event delivered several times to the webhook, against the modelled store:
  all the responses sent, in order, and the final store.\<close>

fun deliver_times ::
  "nat \<Rightarrow> env \<Rightarrow> stripe_lib \<Rightarrow> request \<Rightarrow> store \<Rightarrow> res \<times> store" where
  "deliver_times 0 penv lib req st = ([], st)"
| "deliver_times (Suc n) penv lib req st =
     (let (out, st1) = webhook_handler penv lib store_storage req st;
          (outs, st2) = deliver_times n penv lib req st1
      in (out @ outs, st2))"

section \<open>The payment button: \<^verbatim>\<open>StripeButton.tsx\<close>\<close>

text \<open>
  The component is a timer-driven state machine. Its state is the mutation's
  \<^verbatim>\<open>isPending\<close> flag, the \<^verbatim>\<open>isProcessing\<close> state variable and the callbacks
  handed to \<^verbatim>\<open>setTimeout\<close> that have not fired yet (session id and delay in
  milliseconds); the counters record the effects: status lookups sent, toasts shown,
  query invalidations, and calls of the optional \<^verbatim>\<open>onSuccess\<close> and \<^verbatim>\<open>onError\<close>
  properties.
\<close>

record button =
  isPending :: bool
  isProcessing :: bool
  timers :: "(string \<times> nat) list"
  lookups :: nat
  toasts :: "string list"
  invalidations :: nat
  onSuccess_calls :: nat
  onError_calls :: nat

text \<open>What one status lookup gives: the request or the JSON parsing throws, or it
  resolves to an object whose \<^verbatim>\<open>status\<close> property may be anything.\<close>

datatype lookup = Throws | Resolves "string option"

text \<open>
  The functions that \<^verbatim>\<open>pollPaymentStatus\<close> calls after a terminal status come from
  outside the component: \<^verbatim>\<open>toast\<close>, \<^verbatim>\<open>queryClient.invalidateQueries\<close> and the
  properties \<^verbatim>\<open>onSuccess\<close> and \<^verbatim>\<open>onError\<close>. Each either returns or throws, and
  the record says which, for one run of the poll.
\<close>

record callbacks =
  toast_throws :: bool
  invalidateQueries_throws :: bool
  onSuccess_throws :: bool
  onError_throws :: bool

definition setTimeout :: "string \<Rightarrow> nat \<Rightarrow> button \<Rightarrow> button" where
  "setTimeout sid delay b = b\<lparr>timers := timers b @ [(sid, delay)]\<rparr>"

definition toast :: "string \<Rightarrow> button \<Rightarrow> button" where
  "toast title b = b\<lparr>toasts := toasts b @ [title]\<rparr>"

text \<open>
  One run of \<^verbatim>\<open>pollPaymentStatus\<close> for the session \<open>sid\<close>, lines 36 to 67, with what
  its lookup gives. The whole body is inside the \<^verbatim>\<open>try\<close>: whatever throws, the
  lookup or a function called after a terminal status, reaches the \<^verbatim>\<open>catch\<close>, which
  schedules the next poll after 2000 ms. A toast that throws is not shown; a property
  that throws has been called.
\<close>

definition pollPaymentStatus :: "string \<Rightarrow> lookup \<Rightarrow> callbacks \<Rightarrow> button \<Rightarrow> button" where
  "pollPaymentStatus sid statusData cb b0 =
     (let b = b0\<lparr>lookups := lookups b0 + 1\<rparr> in
      case statusData of
        Throws \<Rightarrow> setTimeout sid 2000 b
      | Resolves st \<Rightarrow>
          if st = Some ''completed''
          then (let b1 = b\<lparr>isProcessing := False\<rparr> in
                if toast_throws cb then setTimeout sid 2000 b1
                else (let b2 = toast ''Payment successful!'' b1 in
                      if invalidateQueries_throws cb then setTimeout sid 2000 b2
                      else (let b3 = b2\<lparr>invalidations := invalidations b2 + 1,
                                        onSuccess_calls := onSuccess_calls b2 + 1\<rparr> in
                            if onSuccess_throws cb then setTimeout sid 2000 b3 else b3)))
          else if st = Some ''failed''
          then (let b1 = b\<lparr>isProcessing := False\<rparr> in
                if toast_throws cb then setTimeout sid 2000 b1
                else (let b2 = (toast ''Payment failed'' b1)\<lparr>onError_calls := onError_calls b1 + 1\<rparr> in
                      if onError_throws cb then setTimeout sid 2000 b2 else b2))
          else setTimeout sid 2000 b)"

text \<open>The \<^verbatim>\<open>disabled\<close> property of the button, line 99.\<close>

definition disabled :: "button \<Rightarrow> bool" where
  "disabled b = (isPending b \<or> isProcessing b)"

text \<open>
  What can happen to the component: the user clicks; the checkout request resolves with
  \<^verbatim>\<open>data.url\<close>, \<^verbatim>\<open>data.sessionId\<close> and the outcome of \<^verbatim>\<open>window.open\<close>; the
  checkout request fails; a scheduled poll of a session fires, its lookup gives a
  result and the functions it calls behave as the record says.
\<close>

datatype ui_event =
    Click
  | CheckoutResolved "string option" string bool
  | CheckoutRejected
  | TimerFires string lookup callbacks

text \<open>
  The \<^verbatim>\<open>onSuccess\<close> and \<^verbatim>\<open>onError\<close> handlers of the mutation, lines 27 to 89. No
  \<^verbatim>\<open>try\<close> of the component encloses them: a throw there leaves the component for
  the mutation library, which is not among the sources, and they are modelled for a
  window opening, a toast and a property that return.
\<close>

definition mutation_onSuccess :: "string option \<Rightarrow> string \<Rightarrow> bool \<Rightarrow> button \<Rightarrow> button" where
  "mutation_onSuccess url sid checkoutWindow b =
     (if falsy url then b
      else if checkoutWindow then setTimeout sid 3000 (b\<lparr>isProcessing := True\<rparr>)
      else toast ''Popup blocked'' b)"

definition mutation_onError :: "button \<Rightarrow> button" where
  "mutation_onError b =
     (let b1 = toast ''Payment setup failed'' b in b1\<lparr>onError_calls := onError_calls b1 + 1\<rparr>)"

text \<open>
  A disabled button delivers no click; a checkout request settles only while one is
  pending; a timer fires only when it has been scheduled, and is then gone.
\<close>

fun scheduled :: "string \<Rightarrow> (string \<times> nat) list \<Rightarrow> bool" where
  "scheduled sid [] = False"
| "scheduled sid ((s, d) # ts) = (s = sid \<or> scheduled sid ts)"

fun clear_timer :: "string \<Rightarrow> (string \<times> nat) list \<Rightarrow> (string \<times> nat) list" where
  "clear_timer sid [] = []"
| "clear_timer sid ((s, d) # ts) = (if s = sid then ts else (s, d) # clear_timer sid ts)"

fun step :: "ui_event \<Rightarrow> button \<Rightarrow> button" where
  "step Click b = (if disabled b then b else b\<lparr>isPending := True\<rparr>)"
| "step (CheckoutResolved url sid checkoutWindow) b =
     (if isPending b
      then (mutation_onSuccess url sid checkoutWindow b)\<lparr>isPending := False\<rparr>
      else b)"
| "step CheckoutRejected b =
     (if isPending b then (mutation_onError b)\<lparr>isPending := False\<rparr> else b)"
| "step (TimerFires sid statusData cb) b =
     (if scheduled sid (timers b)
      then pollPaymentStatus sid statusData cb (b\<lparr>timers := clear_timer sid (timers b)\<rparr>)
      else b)"

fun run :: "ui_event list \<Rightarrow> button \<Rightarrow> button" where
  "run [] b = b"
| "run (e # es) b = run es (step e b)"

definition mounted :: button where
  "mounted = \<lparr>isPending = False, isProcessing = False, timers = [], lookups = 0,
              toasts = [], invalidations = 0, onSuccess_calls = 0, onError_calls = 0\<rparr>"

text \<open>A lookup is terminal when it shows \<^verbatim>\<open>completed\<close> or \<^verbatim>\<open>failed\<close>.\<close>

definition terminal :: "lookup \<Rightarrow> bool" where
  "terminal statusData =
     (statusData = Resolves (Some ''completed'') \<or> statusData = Resolves (Some ''failed''))"

text \<open>
  A poll returns normally when none of the functions it calls after its status throws:
  the toast, the invalidation and \<^verbatim>\<open>onSuccess\<close> after \<^verbatim>\<open>completed\<close>, the toast and
  \<^verbatim>\<open>onError\<close> after \<^verbatim>\<open>failed\<close>.
\<close>

definition returns_normally :: "lookup \<Rightarrow> callbacks \<Rightarrow> bool" where
  "returns_normally statusData cb =
     (if statusData = Resolves (Some ''completed'')
      then \<not> toast_throws cb \<and> \<not> invalidateQueries_throws cb \<and> \<not> onSuccess_throws cb
      else if statusData = Resolves (Some ''failed'')
      then \<not> toast_throws cb \<and> \<not> onError_throws cb
      else True)"

fun quiet :: "ui_event \<Rightarrow> bool" where
  "quiet (TimerFires sid statusData cb) = returns_normally statusData cb"
| "quiet e = True"

text \<open>
  An invariant of the component as long as every poll returns normally: while
  \<^verbatim>\<open>isProcessing\<close> is set no checkout request is pending and exactly one poll is
  scheduled; while it is not set, none is.
\<close>

definition button_inv :: "button \<Rightarrow> bool" where
  "button_inv b =
     ((isProcessing b \<longrightarrow> \<not> isPending b \<and> length (timers b) = 1) \<and>
      (\<not> isProcessing b \<longrightarrow> timers b = []))"

section \<open>Decimal numerals\<close>

text \<open>
  What the claims call a non-positive or an absent value, said without \<^verbatim>\<open>parseInt\<close>.
  \<open>decimal n\<close> is the decimal string of an integer, as \<^verbatim>\<open>String(n)\<close> writes it. A
  non-positive numeral is a minus sign followed by one or more decimal digits, or one or
  more zeros: \<^verbatim>\<open>0\<close>, \<^verbatim>\<open>-5\<close>, \<^verbatim>\<open>-0\<close>, \<^verbatim>\<open>000\<close>.
\<close>

function digits :: "nat \<Rightarrow> utf16" where
  "digits n = (if n < 10 then [48 + n] else digits (n div 10) @ [48 + n mod 10])"
  by pat_completeness auto
termination
  by (relation "measure (\<lambda>n. n)") auto

declare digits.simps [simp del]

definition decimal :: "int \<Rightarrow> utf16" where
  "decimal n = (if n < 0 then 45 # digits (nat (- n)) else digits (nat n))"

definition decimal_digit :: "nat \<Rightarrow> bool" where
  "decimal_digit c = (48 \<le> c \<and> c \<le> 57)"

definition nonpositive_numeral :: "utf16 \<Rightarrow> bool" where
  "nonpositive_numeral s =
     (case s of
        [] \<Rightarrow> False
      | c # ds \<Rightarrow> if c = 45 then ds \<noteq> [] \<and> list_all decimal_digit ds
                  else list_all (\<lambda>d. d = 48) s)"



section \<open>Test doubles\<close>

text \<open>
  Concrete environments, requests, events, a library stub and storage stubs, on which the
  theorems below are instantiated. The library stub accepts a request exactly when its
  signature header equals the secret, and then yields a fixed event. The recording
  storage keeps the list of calls it has received as its store.
\<close>

definition configured_env :: env where
  "configured_env = \<lparr>STRIPE_WEBHOOK_SECRET = Some ''whsec_test'', STRIPE_SECRET_KEY = Some ''sk_test''\<rparr>"

definition unconfigured_env :: env where
  "unconfigured_env = \<lparr>STRIPE_WEBHOOK_SECRET = None, STRIPE_SECRET_KEY = Some ''sk_test''\<rparr>"

definition signature_error :: js_error where
  "signature_error = \<lparr>message = Some ''No signatures found matching the expected signature'', code = None\<rparr>"

definition stub_constructEvent :: "event \<Rightarrow> stripe_lib" where
  "stub_constructEvent ev key payload sig secret =
     (if sig = Some secret then Inr ev else Inl signature_error)"

definition signed_request :: request where
  "signed_request = \<lparr>body = ''payload'', stripe_signature = Some ''whsec_test''\<rparr>"

definition tampered_request :: request where
  "tampered_request = \<lparr>body = ''payload'', stripe_signature = Some ''forged''\<rparr>"

definition recording_storage :: "(string \<times> number \<times> number) list storage" where
  "recording_storage sid u t calls =
     (Inr \<lparr>alreadyCompleted = False, newBalance = 0\<rparr>, calls @ [(sid, u, t)])"

definition throwing_storage :: "js_error \<Rightarrow> 'st storage" where
  "throwing_storage error sid u t st = (Inl error, st)"

text \<open>A checkout session whose metadata carries the two ASCII texts.\<close>

definition session_with :: "string \<Rightarrow> string \<Rightarrow> checkout_session" where
  "session_with uid toks =
     \<lparr>cs_id = ''cs_test_1'',
      cs_metadata = Some \<lparr>user_id = Some (code_units uid), tokens = Some (code_units toks)\<rparr>,
      client_reference_id = None\<rparr>"

definition completed_event :: "checkout_session \<Rightarrow> event" where
  "completed_event session =
     \<lparr>event_id = ''evt_1'', event_type = ''checkout.session.completed'', data_object = session\<rparr>"

definition other_event :: event where
  "other_event =
     \<lparr>event_id = ''evt_2'', event_type = ''payment_intent.created'',
      data_object = session_with ''42'' ''1000''\<rparr>"

definition unreachable_error :: js_error where
  "unreachable_error = \<lparr>message = Some ''network is unreachable'', code = Some ''ENETUNREACH''\<rparr>"

definition timeout_error :: js_error where
  "timeout_error = \<lparr>message = Some ''Query read timeout'', code = None\<rparr>"


text \<open>A store with one pending session of 1000 tokens for user 42, whose balance is 10.\<close>

definition pending_session :: PaymentSession where
  "pending_session =
     \<lparr>sessionId = ''cs_test_1'', userId = 42, tokenAmount = 1000, status = pending,
      completedAt = None\<rparr>"

definition demo_store :: store where
  "demo_store =
     \<lparr>sessions = [''cs_test_1'' \<mapsto> pending_session], balances = (\<lambda>u. if u = 42 then 10 else 0),
      now = 7\<rparr>"

text \<open>Callbacks that all return, and callbacks whose \<^verbatim>\<open>onSuccess\<close> throws.\<close>

definition all_return :: callbacks where
  "all_return = \<lparr>toast_throws = False, invalidateQueries_throws = False,
                 onSuccess_throws = False, onError_throws = False\<rparr>"

definition onSuccess_throwing :: callbacks where
  "onSuccess_throwing = \<lparr>toast_throws = False, invalidateQueries_throws = False,
                          onSuccess_throws = True, onError_throws = False\<rparr>"

section \<open>Parsing facts\<close>

lemmas parse_defs =
  parseInt_def code_units_def isWhiteSpace_def is_digit_def digit_value_def math_int_def
  toDouble_def

lemma parseInt_42: "parseInt (code_units ''42'') = Num 42"
  by (simp add: parse_defs)

lemma parseInt_1000: "parseInt (code_units ''1000'') = Num 1000"
  by (simp add: parse_defs)

lemma parseInt_5000: "parseInt (code_units ''5000'') = Num 5000"
  by (simp add: parse_defs)

lemma parseInt_100: "parseInt (code_units ''100'') = Num 100"
  by (simp add: parse_defs)


lemma parseInt_minus_5: "parseInt (code_units ''-5'') = Num (- 5)"
  by (simp add: parse_defs)

lemma parseInt_abc: "parseInt (code_units ''abc'') = NaN"
  by (simp add: parse_defs)

text \<open>White space beyond ASCII is skipped; an integer beyond \<open>2^53\<close> is rounded to the
  nearest double, a tie going to the even one.\<close>

lemma parseInt_nbsp: "parseInt (160 # code_units ''7'') = Num 7"
  by (simp add: parse_defs)

lemma parseInt_rounds: "parseInt (code_units ''9007199254740993'') = Num 9007199254740992"
  by (simp add: parse_defs bitLength.simps Let_def)

subsection \<open>Decimal numerals are read back\<close>

lemma digits_nonempty: "digits n \<noteq> []"
  by (induction n rule: digits.induct) (subst digits.simps, simp)

lemma digits_decimal: "list_all decimal_digit (digits n)"
proof (induction n rule: digits.induct)
  case (1 n)
  show ?case
  proof (cases "n < 10")
    case True
    then show ?thesis by (subst digits.simps) (simp add: decimal_digit_def)
  next
    case False
    have "n mod 10 < 10" by simp
    then have "decimal_digit (48 + n mod 10)" by (simp add: decimal_digit_def)
    with False 1 show ?thesis by (subst digits.simps) simp
  qed
qed

lemma digit_value_decimal: "decimal_digit c \<Longrightarrow> digit_value c = Some (c - 48)"
  by (simp add: decimal_digit_def digit_value_def)

lemma math_int_snoc:
  "math_int R (z @ [c]) = math_int R z * R + (case digit_value c of None \<Rightarrow> 0 | Some d \<Rightarrow> d)"
  by (simp add: math_int_def)

lemma math_int_digits: "math_int 10 (digits n) = n"
proof (induction n rule: digits.induct)
  case (1 n)
  show ?case
  proof (cases "n < 10")
    case True
    then show ?thesis
      by (subst digits.simps) (simp add: math_int_def digit_value_def)
  next
    case False
    have "n mod 10 < 10" by simp
    then have d: "digit_value (48 + n mod 10) = Some (n mod 10)"
      by (simp add: digit_value_def)
    from False 1 have "math_int 10 (digits (n div 10)) = n div 10" by simp
    with False d show ?thesis
      by (subst digits.simps) (simp add: math_int_snoc)
  qed
qed

lemma decimal_not_white: "decimal_digit c \<Longrightarrow> \<not> isWhiteSpace c"
  by (auto simp: decimal_digit_def isWhiteSpace_def)

lemma decimal_is_digit: "decimal_digit c \<Longrightarrow> is_digit 10 c"
  by (auto simp: is_digit_def digit_value_def decimal_digit_def)

lemma takeWhile_decimal: "list_all decimal_digit ds \<Longrightarrow> takeWhile (is_digit 10) ds = ds"
  by (induction ds) (simp_all add: decimal_is_digit)

lemma decimal_not_hex:
  assumes "list_all decimal_digit ds"
  shows "\<not> startsWith ds [48, 120]" and "\<not> startsWith ds [48, 88]"
        and "\<not> startsWith ds [45]" and "\<not> startsWith ds [43]"
proof -
  show "\<not> startsWith ds [48, 120]" "\<not> startsWith ds [48, 88]"
    using assms by (cases ds; cases "tl ds"; auto simp: decimal_digit_def)+
  show "\<not> startsWith ds [45]" "\<not> startsWith ds [43]"
    using assms by (cases ds; auto simp: decimal_digit_def)+
qed

lemma parseInt_digits:
  assumes "ds \<noteq> []" and "list_all decimal_digit ds"
  shows "parseInt ds =
           (case toDouble (math_int 10 ds) of None \<Rightarrow> PosInfinity | Some v \<Rightarrow> Num (int v))"
proof -
  from assms obtain c cs where ds: "ds = c # cs" and c: "decimal_digit c"
    by (cases ds) auto
  have w: "dropWhile isWhiteSpace ds = ds"
    using c by (simp add: ds decimal_not_white)
  show ?thesis
    using assms(1)
    by (simp add: parseInt_def w decimal_not_hex [OF assms(2)] takeWhile_decimal [OF assms(2)]
          Let_def split: option.splits)
qed

lemma parseInt_minus_digits:
  assumes "ds \<noteq> []" and "list_all decimal_digit ds"
  shows "parseInt (45 # ds) =
           (case toDouble (math_int 10 ds) of None \<Rightarrow> NegInfinity | Some v \<Rightarrow> Num (- int v))"
proof -
  have w: "\<not> isWhiteSpace 45"
    by (simp add: isWhiteSpace_def)
  show ?thesis
    using assms(1)
    by (simp add: parseInt_def w decimal_not_hex [OF assms(2)] takeWhile_decimal [OF assms(2)]
          Let_def split: option.splits)
qed

lemma toDouble_small: "m < 2 ^ 53 \<Longrightarrow> toDouble m = Some m"
  by (simp add: toDouble_def)

text \<open>The decimal string of an integer below \<open>2^53\<close> in size parses to that integer.\<close>

lemma parseInt_decimal:
  assumes "\<bar>n\<bar> < 2 ^ 53"
  shows "parseInt (decimal n) = Num n"
proof (cases "n < 0")
  case True
  with assms have "nat (- n) < 2 ^ 53" by simp
  then have "toDouble (math_int 10 (digits (nat (- n)))) = Some (nat (- n))"
    by (simp add: math_int_digits toDouble_small)
  with True show ?thesis
    by (simp add: decimal_def parseInt_minus_digits [OF digits_nonempty digits_decimal])
next
  case False
  with assms have "nat n < 2 ^ 53" by simp
  then have "toDouble (math_int 10 (digits (nat n))) = Some (nat n)"
    by (simp add: math_int_digits toDouble_small)
  with False show ?thesis
    by (simp add: decimal_def parseInt_digits [OF digits_nonempty digits_decimal])
qed

subsection \<open>Non-positive numerals are not positive\<close>





lemma nonpositive_numeral_decimal: "n \<le> 0 \<Longrightarrow> nonpositive_numeral (decimal n)"
proof (cases "n = 0")
  case True
  have "digits 0 = [48]" by (subst digits.simps) simp
  with True show ?thesis
    by (simp add: decimal_def nonpositive_numeral_def)
next
  case False
  assume "n \<le> 0"
  with False have "n < 0" by simp
  then show ?thesis
    by (simp add: decimal_def nonpositive_numeral_def digits_nonempty digits_decimal)
qed


subsection \<open>Searching a string\<close>



section \<open>The webhook's paths\<close>

text \<open>The handler on a verified \<^verbatim>\<open>checkout.session.completed\<close> event.\<close>

lemma webhook_completed:
  assumes "STRIPE_WEBHOOK_SECRET penv = Some secret" and "secret \<noteq> []"
    and "lib (STRIPE_SECRET_KEY penv) (body req) (stripe_signature req) secret = Inr ev"
    and "event_type ev = ''checkout.session.completed''"
  shows "webhook_handler penv lib storage req st = process_completed storage (data_object ev) [] st"
  using assms by (simp add: webhook_handler_def falsy_def dispatch_def split: prod.splits)

text \<open>
  C7. A verified event whose type is not \<^verbatim>\<open>checkout.session.completed\<close> is answered
  once, with status 200 by the final \<^verbatim>\<open>res.sendStatus(200)\<close>, and the store comes back
  as it was whatever the storage module would do: the storage is not called.
\<close>

theorem other_event_types_ignored:
  assumes "STRIPE_WEBHOOK_SECRET penv = Some secret" and "secret \<noteq> []"
    and "lib (STRIPE_SECRET_KEY penv) (body req) (stripe_signature req) secret = Inr ev"
    and "event_type ev \<noteq> ''checkout.session.completed''"
  shows "webhook_handler penv lib storage req st = ([\<lparr>statusCode = 200, sent = Text ''OK''\<rparr>], st)"
  using assms by (simp add: webhook_handler_def falsy_def dispatch_def respond_def)

theorem other_event_types_ignored_witness:
  "webhook_handler configured_env (stub_constructEvent other_event) recording_storage
     signed_request [] = ([\<lparr>statusCode = 200, sent = Text ''OK''\<rparr>], [])"
  by (rule other_event_types_ignored [where secret = "''whsec_test''" and ev = other_event])
     (simp_all add: configured_env_def stub_constructEvent_def signed_request_def other_event_def)

text \<open>
  C6. With the secret configured, a request whose verification throws (a mismatched,
  malformed or tampered signature) is answered once, with status 400 and the text
  \<^verbatim>\<open>Bad signature\<close>, and the store comes back as it was whatever the storage module
  would do.
\<close>

theorem bad_signature_rejected:
  assumes "STRIPE_WEBHOOK_SECRET penv = Some secret" and "secret \<noteq> []"
    and "lib (STRIPE_SECRET_KEY penv) (body req) (stripe_signature req) secret = Inl err"
  shows "webhook_handler penv lib storage req st =
           ([\<lparr>statusCode = 400, sent = Text ''Bad signature''\<rparr>], st)"
  using assms by (simp add: webhook_handler_def falsy_def respond_def)

theorem bad_signature_rejected_witness:
  "webhook_handler configured_env (stub_constructEvent (completed_event (session_with ''42'' ''1000'')))
     recording_storage tampered_request [] = ([\<lparr>statusCode = 400, sent = Text ''Bad signature''\<rparr>], [])"
  by (rule bad_signature_rejected [where secret = "''whsec_test''" and err = signature_error])
     (simp_all add: configured_env_def stub_constructEvent_def tampered_request_def)

text \<open>
  C5, as stated, fails: with \<^verbatim>\<open>STRIPE_WEBHOOK_SECRET\<close> unset the one answer has status
  500, which is a server error and not a client error.
\<close>

theorem unconfigured_secret_is_client_error_counterexample:
  "falsy (STRIPE_WEBHOOK_SECRET unconfigured_env) \<and>
   map statusCode (fst (webhook_handler unconfigured_env (stub_constructEvent other_event)
                      recording_storage signed_request [])) = [500] \<and>
   \<not> (400 \<le> statusCode (hd (fst (webhook_handler unconfigured_env (stub_constructEvent other_event)
                      recording_storage signed_request []))) \<and>
      statusCode (hd (fst (webhook_handler unconfigured_env (stub_constructEvent other_event)
                      recording_storage signed_request []))) < 500)"
  by (simp add: webhook_handler_def falsy_def unconfigured_env_def respond_def)

text \<open>
  C5, amended: when \<^verbatim>\<open>STRIPE_WEBHOOK_SECRET\<close> is unset or empty the handler answers
  once, with status 500 and \<^verbatim>\<open>Webhook not configured\<close>. Neither the library nor the
  storage is called: the store comes back as it was whatever they would do, so nothing
  is credited.
\<close>

theorem unconfigured_secret_server_error:
  assumes "falsy (STRIPE_WEBHOOK_SECRET penv)"
  shows "webhook_handler penv lib storage req st =
           ([\<lparr>statusCode = 500, sent = Json_error ''Webhook not configured''\<rparr>], st)"
  using assms by (simp add: webhook_handler_def respond_def)

theorem unconfigured_secret_server_error_witness:
  "webhook_handler unconfigured_env (stub_constructEvent (completed_event (session_with ''42'' ''1000'')))
     recording_storage signed_request [] =
   ([\<lparr>statusCode = 500, sent = Json_error ''Webhook not configured''\<rparr>], [])"
  by (rule unconfigured_secret_server_error) (simp add: falsy_def unconfigured_env_def)

section \<open>Reconciliation\<close>

lemma process_completed_invalid:
  "le_zero (resolve_userId session) \<or> le_zero (resolve_tokens session) \<Longrightarrow>
   process_completed storage session out st = (respond 200 Json_received out, st)"
  by (simp add: process_completed_def Let_def)

lemma process_completed_throws:
  assumes "\<not> le_zero (resolve_userId session)" and "\<not> le_zero (resolve_tokens session)"
    and "storage (cs_id session) (resolve_userId session) (resolve_tokens session) st = (Inl error, st')"
  shows "process_completed storage session out st = (catch_reconciliation error out, st')"
  using assms by (simp add: process_completed_def Let_def)

lemma process_completed_returns:
  assumes "\<not> le_zero (resolve_userId session)" and "\<not> le_zero (resolve_tokens session)"
    and "storage (cs_id session) (resolve_userId session) (resolve_tokens session) st = (Inr result, st')"
  shows "process_completed storage session out st = (respond 200 Json_received out, st')"
  using assms by (simp add: process_completed_def Let_def)

lemma isTransient_iff: "isTransient error = (message_marker error \<or> code error = Some ''ENETUNREACH'')"
  by (simp add: isTransient_def message_marker_def)


lemma resolve_session_with:
  "resolve_userId (session_with ''42'' ''1000'') = Num 42"
  "resolve_tokens (session_with ''42'' ''1000'') = Num 1000"
  by (simp_all add: resolve_userId_def resolve_tokens_def metadata_user_id_def metadata_tokens_def
        session_with_def js_or_def js_or_lit_def falsy_def parseInt_42 parseInt_1000)
     (simp_all add: code_units_def)

text \<open>
  C3, as stated, fails. The \<^verbatim>\<open>catch\<close> block asks for a retry when the message contains
  \<^verbatim>\<open>connection\<close>, \<^verbatim>\<open>timeout\<close> or \<^verbatim>\<open>ECONNREFUSED\<close>, and also when the error's
  \<^verbatim>\<open>code\<close> is \<^verbatim>\<open>ENETUNREACH\<close> whatever the message says. An error with that code
  and no marker in its message is answered with status 500, not 200.
\<close>

theorem only_message_markers_retry_counterexample:
  "\<not> message_marker unreachable_error \<and>
   map statusCode (fst (webhook_handler configured_env
      (stub_constructEvent (completed_event (session_with ''42'' ''1000'')))
      (throwing_storage unreachable_error) signed_request ())) = [500]"
proof -
  have m: "\<not> message_marker unreachable_error"
    by (simp add: message_marker_def message_includes_def unreachable_error_def)
  have t: "isTransient unreachable_error"
    by (simp add: isTransient_def unreachable_error_def)
  have "webhook_handler configured_env
      (stub_constructEvent (completed_event (session_with ''42'' ''1000'')))
      (throwing_storage unreachable_error) signed_request () =
      process_completed (throwing_storage unreachable_error) (session_with ''42'' ''1000'') [] ()"
    by (simp add: webhook_handler_def falsy_def configured_env_def stub_constructEvent_def
          signed_request_def completed_event_def dispatch_def split: prod.splits)
  also have "\<dots> = (catch_reconciliation unreachable_error [], ())"
    by (rule process_completed_throws)
       (simp_all add: resolve_session_with le_zero_def throwing_storage_def)
  finally show ?thesis using m t by (simp add: catch_reconciliation_def respond_def)
qed

text \<open>
  C3, amended: for a verified \<^verbatim>\<open>checkout.session.completed\<close> event that passes the
  validation and whose reconciliation throws, the one answer has status 500 when the
  message carries one of the three markers or the code is \<^verbatim>\<open>ENETUNREACH\<close>, and is
  the status 200 acknowledgment otherwise.
\<close>

theorem reconciliation_failure_response:
  assumes "STRIPE_WEBHOOK_SECRET penv = Some secret" and "secret \<noteq> []"
    and "lib (STRIPE_SECRET_KEY penv) (body req) (stripe_signature req) secret = Inr ev"
    and "event_type ev = ''checkout.session.completed''"
    and "\<not> le_zero (resolve_userId (data_object ev))"
    and "\<not> le_zero (resolve_tokens (data_object ev))"
    and "storage (cs_id (data_object ev)) (resolve_userId (data_object ev))
           (resolve_tokens (data_object ev)) st = (Inl error, st')"
  shows "webhook_handler penv lib storage req st =
           ([if message_marker error \<or> code error = Some ''ENETUNREACH''
             then \<lparr>statusCode = 500, sent = Json_error ''Temporary error, please retry''\<rparr>
             else \<lparr>statusCode = 200, sent = Json_received\<rparr>], st')"
proof -
  have "webhook_handler penv lib storage req st = process_completed storage (data_object ev) [] st"
    using assms(1-4) by (rule webhook_completed)
  also have "\<dots> = (catch_reconciliation error [], st')"
    using assms(5-7) by (rule process_completed_throws)
  finally show ?thesis
    by (simp add: catch_reconciliation_def isTransient_iff respond_def)
qed

theorem reconciliation_failure_response_witness:
  "webhook_handler configured_env
      (stub_constructEvent (completed_event (session_with ''42'' ''1000'')))
      (throwing_storage timeout_error) signed_request () =
   ([\<lparr>statusCode = 500, sent = Json_error ''Temporary error, please retry''\<rparr>], ()) \<and>
   webhook_handler configured_env
      (stub_constructEvent (completed_event (session_with ''42'' ''1000'')))
      (throwing_storage session_not_found) signed_request () =
   ([\<lparr>statusCode = 200, sent = Json_received\<rparr>], ())"
proof -
  let ?ev = "completed_event (session_with ''42'' ''1000'')"
  have a: "STRIPE_WEBHOOK_SECRET configured_env = Some ''whsec_test''" "''whsec_test'' \<noteq> []"
    by (simp_all add: configured_env_def)
  have b: "stub_constructEvent ?ev (STRIPE_SECRET_KEY configured_env) (body signed_request)
             (stripe_signature signed_request) ''whsec_test'' = Inr ?ev"
    by (simp add: stub_constructEvent_def signed_request_def)
  have c: "event_type ?ev = ''checkout.session.completed''"
    by (simp add: completed_event_def)
  have d: "\<not> le_zero (resolve_userId (data_object ?ev))" "\<not> le_zero (resolve_tokens (data_object ?ev))"
    by (simp_all add: completed_event_def resolve_session_with le_zero_def)
  have e: "throwing_storage err (cs_id (data_object ?ev)) (resolve_userId (data_object ?ev))
           (resolve_tokens (data_object ?ev)) () = (Inl err, ())" for err
    by (simp add: throwing_storage_def)
  have m1: "message_marker timeout_error"
    by (simp add: message_marker_def message_includes_def timeout_error_def)
  have m2: "\<not> message_marker session_not_found" "code session_not_found \<noteq> Some ''ENETUNREACH''"
    by (simp_all add: message_marker_def message_includes_def session_not_found_def)
  note r = reconciliation_failure_response [where penv = configured_env
      and secret = "''whsec_test''" and lib = "stub_constructEvent ?ev" and req = signed_request
      and ev = ?ev and st = "()" and st' = "()"]
  show ?thesis
    using r [where storage = "throwing_storage timeout_error" and error = timeout_error, OF a b c d e]
          r [where storage = "throwing_storage session_not_found" and error = session_not_found,
             OF a b c d e] m1 m2
    by simp
qed

section \<open>Status codes\<close>






section \<open>Validation of the event's metadata\<close>

text \<open>
  Where both values parse to numbers, the validation does what its log line says: a
  user identifier or a token amount that is zero or negative is acknowledged with status
  200 and the storage is not called.
\<close>

lemma nonpositive_payload_acknowledged:
  assumes "STRIPE_WEBHOOK_SECRET penv = Some secret" and "secret \<noteq> []"
    and "lib (STRIPE_SECRET_KEY penv) (body req) (stripe_signature req) secret = Inr ev"
    and "event_type ev = ''checkout.session.completed''"
    and "resolve_userId (data_object ev) = Num uid"
    and "resolve_tokens (data_object ev) = Num amount"
    and "uid \<le> 0 \<or> amount \<le> 0"
  shows "webhook_handler penv lib storage req st = ([\<lparr>statusCode = 200, sent = Json_received\<rparr>], st)"
proof -
  have "webhook_handler penv lib storage req st = process_completed storage (data_object ev) [] st"
    using assms(1-4) by (rule webhook_completed)
  also have "\<dots> = (respond 200 Json_received [], st)"
    using assms(5-7) by (intro process_completed_invalid) (auto simp: le_zero_def)
  finally show ?thesis by (simp add: respond_def)
qed

lemma zero_user_acknowledged:
  "webhook_handler configured_env
      (stub_constructEvent (completed_event (session_with ''0'' ''1000'')))
      recording_storage signed_request [] = ([\<lparr>statusCode = 200, sent = Json_received\<rparr>], [])"
  by (rule nonpositive_payload_acknowledged [where secret = "''whsec_test''" and uid = 0
        and amount = 1000
        and ev = "completed_event (session_with ''0'' ''1000'')"])
     (simp_all add: configured_env_def stub_constructEvent_def signed_request_def
        completed_event_def resolve_userId_def resolve_tokens_def metadata_user_id_def
        metadata_tokens_def session_with_def js_or_def js_or_lit_def falsy_def parseInt_1000,
      simp_all add: parse_defs)

lemma negative_tokens_acknowledged:
  "webhook_handler configured_env
      (stub_constructEvent (completed_event (session_with ''42'' ''-5'')))
      recording_storage signed_request [] = ([\<lparr>statusCode = 200, sent = Json_received\<rparr>], [])"
  by (rule nonpositive_payload_acknowledged [where secret = "''whsec_test''" and uid = 42
        and amount = "- 5"
        and ev = "completed_event (session_with ''42'' ''-5'')"])
     (simp_all add: configured_env_def stub_constructEvent_def signed_request_def
        completed_event_def resolve_userId_def resolve_tokens_def metadata_user_id_def
        metadata_tokens_def session_with_def js_or_def js_or_lit_def falsy_def,
      simp_all add: parse_defs)

text \<open>
  C2 fails on a value that is not a number. With \<^verbatim>\<open>user_id = 'abc'\<close> the user
  identifier resolves to \<open>NaN\<close>, which is not a strictly positive integer; \<^verbatim>\<open>NaN <= 0\<close>
  is false, so the event is not classified as invalid and the storage is called with
  \<open>NaN\<close> as the user identifier.
\<close>

theorem nan_user_id_reaches_storage:
  "resolve_userId (session_with ''abc'' ''100'') = NaN \<and>
   webhook_handler configured_env
      (stub_constructEvent (completed_event (session_with ''abc'' ''100'')))
      recording_storage signed_request [] =
   ([\<lparr>statusCode = 200, sent = Json_received\<rparr>], [(''cs_test_1'', NaN, Num 100)])"
proof -
  let ?s = "session_with ''abc'' ''100''"
  have u: "resolve_userId ?s = NaN"
    by (simp add: resolve_userId_def metadata_user_id_def session_with_def js_or_def js_or_lit_def
          falsy_def parseInt_abc)
       (simp add: code_units_def)
  have t: "resolve_tokens ?s = Num 100"
    by (simp add: resolve_tokens_def metadata_tokens_def session_with_def js_or_lit_def parseInt_100)
       (simp add: code_units_def)
  have "webhook_handler configured_env (stub_constructEvent (completed_event ?s))
          recording_storage signed_request [] = process_completed recording_storage ?s [] []"
    by (simp add: webhook_handler_def falsy_def configured_env_def stub_constructEvent_def
          signed_request_def completed_event_def dispatch_def split: prod.splits)
  also have "\<dots> = (respond 200 Json_received [], [(cs_id ?s, NaN, Num 100)])"
    by (rule process_completed_returns [where result = "\<lparr>alreadyCompleted = False, newBalance = 0\<rparr>"])
       (simp_all add: u t le_zero_def recording_storage_def)
  finally show ?thesis using u by (simp add: respond_def session_with_def)
qed

section \<open>The atomic complete-and-credit operation\<close>

lemma complete_first:
  assumes "sessions st sid = Some s" and "status s \<noteq> completed"
  shows "completeStripePaymentAndCredit sid uid amount st =
           (Inr \<lparr>alreadyCompleted = False, newBalance = balances st uid + amount\<rparr>,
            credit_session sid s uid amount st)"
  using assms by (simp add: completeStripePaymentAndCredit_def)

lemma complete_again:
  assumes "sessions st sid = Some s" and "status s = completed"
  shows "completeStripePaymentAndCredit sid uid amount st =
           (Inr \<lparr>alreadyCompleted = True, newBalance = balances st uid\<rparr>, st)"
  using assms by (simp add: completeStripePaymentAndCredit_def)

lemma credit_session_completed:
  "sessions (credit_session sid s uid amount st) sid =
     Some (s\<lparr>status := completed, completedAt := Some (now st)\<rparr>)"
  by (simp add: credit_session_def)

lemma credit_session_balance:
  "balances (credit_session sid s uid amount st) uid = balances st uid + amount"
  by (simp add: credit_session_def)

lemma invoke_times_completed:
  assumes "sessions st sid = Some s" and "status s = completed"
  shows "invoke_times n sid uid amount st =
           (replicate n (Inr \<lparr>alreadyCompleted = True, newBalance = balances st uid\<rparr>), st)"
  by (induction n) (simp_all add: complete_again [OF assms])

lemma invoke_times_pending:
  assumes "sessions st sid = Some s" and "status s \<noteq> completed"
  shows "invoke_times (Suc n) sid uid amount st =
           (Inr \<lparr>alreadyCompleted = False, newBalance = balances st uid + amount\<rparr> #
            replicate n (Inr \<lparr>alreadyCompleted = True, newBalance = balances st uid + amount\<rparr>),
            credit_session sid s uid amount st)"
proof -
  have "invoke_times n sid uid amount (credit_session sid s uid amount st) =
          (replicate n (Inr \<lparr>alreadyCompleted = True,
             newBalance = balances (credit_session sid s uid amount st) uid\<rparr>),
           credit_session sid s uid amount st)"
    by (rule invoke_times_completed [OF credit_session_completed]) simp
  then show ?thesis
    by (simp add: complete_first [OF assms] credit_session_balance)
qed

lemma credited_replicate:
  "filter credited (replicate n (Inr \<lparr>alreadyCompleted = True, newBalance = b\<rparr>)) = []"
  by (simp add: credited_def)

section \<open>The webhook against the modelled store\<close>

lemma webhook_store_first:
  assumes "STRIPE_WEBHOOK_SECRET penv = Some secret" and "secret \<noteq> []"
    and "lib (STRIPE_SECRET_KEY penv) (body req) (stripe_signature req) secret = Inr ev"
    and "event_type ev = ''checkout.session.completed''"
    and "resolve_userId (data_object ev) = Num uid" and "resolve_tokens (data_object ev) = Num amount"
    and "0 < uid" and "0 < amount"
    and "sessions st (cs_id (data_object ev)) = Some s" and "status s \<noteq> completed"
  shows "webhook_handler penv lib store_storage req st =
           ([received], credit_session (cs_id (data_object ev)) s uid amount st)"
proof -
  have "webhook_handler penv lib store_storage req st =
          process_completed store_storage (data_object ev) [] st"
    using assms(1-4) by (rule webhook_completed)
  also have "\<dots> = (respond 200 Json_received [],
                     credit_session (cs_id (data_object ev)) s uid amount st)"
    using assms(5-8)
    by (intro process_completed_returns)
       (simp_all add: le_zero_def store_storage_def complete_first [OF assms(9,10)])
  finally show ?thesis by (simp add: respond_def received_def)
qed

lemma webhook_store_again:
  assumes "STRIPE_WEBHOOK_SECRET penv = Some secret" and "secret \<noteq> []"
    and "lib (STRIPE_SECRET_KEY penv) (body req) (stripe_signature req) secret = Inr ev"
    and "event_type ev = ''checkout.session.completed''"
    and "resolve_userId (data_object ev) = Num uid" and "resolve_tokens (data_object ev) = Num amount"
    and "0 < uid" and "0 < amount"
    and "sessions st (cs_id (data_object ev)) = Some s" and "status s = completed"
  shows "webhook_handler penv lib store_storage req st = ([received], st)"
proof -
  have "webhook_handler penv lib store_storage req st =
          process_completed store_storage (data_object ev) [] st"
    using assms(1-4) by (rule webhook_completed)
  also have "\<dots> = (respond 200 Json_received [], st)"
    using assms(5-8)
    by (intro process_completed_returns)
       (simp_all add: le_zero_def store_storage_def complete_again [OF assms(9,10)])
  finally show ?thesis by (simp add: respond_def received_def)
qed

lemma deliver_times_completed:
  assumes "STRIPE_WEBHOOK_SECRET penv = Some secret" and "secret \<noteq> []"
    and "lib (STRIPE_SECRET_KEY penv) (body req) (stripe_signature req) secret = Inr ev"
    and "event_type ev = ''checkout.session.completed''"
    and "resolve_userId (data_object ev) = Num uid" and "resolve_tokens (data_object ev) = Num amount"
    and "0 < uid" and "0 < amount"
    and "sessions st (cs_id (data_object ev)) = Some s" and "status s = completed"
  shows "deliver_times n penv lib req st = (replicate n received, st)"
  by (induction n) (simp_all add: webhook_store_again [where lib = lib, OF assms])

lemma deliver_times_pending:
  assumes "STRIPE_WEBHOOK_SECRET penv = Some secret" and "secret \<noteq> []"
    and "lib (STRIPE_SECRET_KEY penv) (body req) (stripe_signature req) secret = Inr ev"
    and "event_type ev = ''checkout.session.completed''"
    and "resolve_userId (data_object ev) = Num uid" and "resolve_tokens (data_object ev) = Num amount"
    and "0 < uid" and "0 < amount"
    and "sessions st (cs_id (data_object ev)) = Some s" and "status s \<noteq> completed"
  shows "deliver_times (Suc n) penv lib req st =
           (replicate (Suc n) received, credit_session (cs_id (data_object ev)) s uid amount st)"
proof -
  have "deliver_times n penv lib req (credit_session (cs_id (data_object ev)) s uid amount st) =
          (replicate n received, credit_session (cs_id (data_object ev)) s uid amount st)"
    by (rule deliver_times_completed [where lib = lib, OF assms(1-8) credit_session_completed]) simp
  then show ?thesis
    by (simp add: webhook_store_first [where lib = lib, OF assms])
qed

text \<open>
  C1. For a session that is not yet completed, \<open>n \<ge> 1\<close> invocations of the atomic
  operation with the same arguments give one result with \<open>alreadyCompleted = false\<close>
  followed by \<open>n - 1\<close> results with \<open>alreadyCompleted = true\<close>, all reporting the balance
  after the one credit; exactly one invocation credits, and the final store is the store
  after one credit. Delivering one verified, valid completion event \<open>n\<close> times to the
  webhook gives \<open>n\<close> acknowledgments with status 200 and the same store after one credit.
\<close>

theorem complete_and_credit_idempotent:
  assumes "sessions st sid = Some s" and "status s \<noteq> completed" and "0 < n"
    and "STRIPE_WEBHOOK_SECRET penv = Some secret" and "secret \<noteq> []"
    and "lib (STRIPE_SECRET_KEY penv) (body req) (stripe_signature req) secret = Inr ev"
    and "event_type ev = ''checkout.session.completed''"
    and "cs_id (data_object ev) = sid"
    and "resolve_userId (data_object ev) = Num euid"
    and "resolve_tokens (data_object ev) = Num eamount"
    and "0 < euid" and "0 < eamount"
  shows "invoke_times n sid uid amount st =
           (Inr \<lparr>alreadyCompleted = False, newBalance = balances st uid + amount\<rparr> #
            replicate (n - 1) (Inr \<lparr>alreadyCompleted = True, newBalance = balances st uid + amount\<rparr>),
            credit_session sid s uid amount st) \<and>
         length (filter credited (fst (invoke_times n sid uid amount st))) = 1 \<and>
         (\<forall>i. 0 < i \<and> i < n \<longrightarrow>
            reports_alreadyCompleted (fst (invoke_times n sid uid amount st) ! i)) \<and>
         balances (snd (invoke_times n sid uid amount st)) uid = balances st uid + amount \<and>
         deliver_times n penv lib req st =
           (replicate n \<lparr>statusCode = 200, sent = Json_received\<rparr>,
            credit_session sid s euid eamount st)"
proof -
  from \<open>0 < n\<close> obtain m where n: "n = Suc m" by (cases n) auto
  have inv: "invoke_times n sid uid amount st =
           (Inr \<lparr>alreadyCompleted = False, newBalance = balances st uid + amount\<rparr> #
            replicate (n - 1) (Inr \<lparr>alreadyCompleted = True, newBalance = balances st uid + amount\<rparr>),
            credit_session sid s uid amount st)"
    using invoke_times_pending [OF assms(1,2), of m uid amount] by (simp add: n)
  have one: "length (filter credited (fst (invoke_times n sid uid amount st))) = 1"
    by (simp add: inv credited_replicate) (simp add: credited_def)
  have dup: "\<forall>i. 0 < i \<and> i < n \<longrightarrow>
            reports_alreadyCompleted (fst (invoke_times n sid uid amount st) ! i)"
  proof (intro allI impI)
    fix i assume "0 < i \<and> i < n"
    then obtain j where "i = Suc j" and "j < n - 1" by (cases i) auto
    then show "reports_alreadyCompleted (fst (invoke_times n sid uid amount st) ! i)"
      by (simp add: inv reports_alreadyCompleted_def)
  qed
  have bal: "balances (snd (invoke_times n sid uid amount st)) uid = balances st uid + amount"
    by (simp add: inv credit_session_balance)
  have s': "sessions st (cs_id (data_object ev)) = Some s"
    using assms(1,8) by simp
  have "deliver_times (Suc m) penv lib req st =
          (replicate (Suc m) received, credit_session (cs_id (data_object ev)) s euid eamount st)"
    using assms(4-7) assms(9-12) s' assms(2) by (rule deliver_times_pending [where lib = lib])
  then have del: "deliver_times n penv lib req st =
           (replicate n \<lparr>statusCode = 200, sent = Json_received\<rparr>,
            credit_session sid s euid eamount st)"
    using assms(8) by (simp add: n received_def)
  from inv one dup bal del show ?thesis by blast
qed

theorem complete_and_credit_idempotent_witness:
  "fst (invoke_times 3 ''cs_test_1'' 42 1000 demo_store) =
     [Inr \<lparr>alreadyCompleted = False, newBalance = 1010\<rparr>,
      Inr \<lparr>alreadyCompleted = True, newBalance = 1010\<rparr>,
      Inr \<lparr>alreadyCompleted = True, newBalance = 1010\<rparr>] \<and>
   balances (snd (invoke_times 3 ''cs_test_1'' 42 1000 demo_store)) 42 = 1010 \<and>
   fst (deliver_times 3 configured_env
          (stub_constructEvent (completed_event (session_with ''42'' ''1000'')))
          signed_request demo_store) =
     [\<lparr>statusCode = 200, sent = Json_received\<rparr>, \<lparr>statusCode = 200, sent = Json_received\<rparr>,
      \<lparr>statusCode = 200, sent = Json_received\<rparr>] \<and>
   balances (snd (deliver_times 3 configured_env
          (stub_constructEvent (completed_event (session_with ''42'' ''1000'')))
          signed_request demo_store)) 42 = 1010"
proof -
  let ?ev = "completed_event (session_with ''42'' ''1000'')"
  have a: "sessions demo_store ''cs_test_1'' = Some pending_session"
    "status pending_session \<noteq> completed" "0 < (3::nat)"
    by (simp_all add: demo_store_def pending_session_def)
  have b: "STRIPE_WEBHOOK_SECRET configured_env = Some ''whsec_test''" "''whsec_test'' \<noteq> []"
    by (simp_all add: configured_env_def)
  have c: "stub_constructEvent ?ev (STRIPE_SECRET_KEY configured_env) (body signed_request)
             (stripe_signature signed_request) ''whsec_test'' = Inr ?ev"
    by (simp add: stub_constructEvent_def signed_request_def)
  have d: "event_type ?ev = ''checkout.session.completed''" "cs_id (data_object ?ev) = ''cs_test_1''"
    by (simp_all add: completed_event_def session_with_def)
  have e: "resolve_userId (data_object ?ev) = Num 42" "resolve_tokens (data_object ?ev) = Num 1000"
    "(0::int) < 42" "(0::int) < 1000"
    by (simp_all add: completed_event_def resolve_session_with)
  have r: "replicate 2 x = [x, x]" "replicate 3 x = [x, x, x]" for x :: 'a
    by (simp_all add: numeral_eq_Suc)
  have bal: "balances demo_store 42 = 10"
    by (simp add: demo_store_def)
  show ?thesis
    using complete_and_credit_idempotent [where lib = "stub_constructEvent ?ev" and uid = 42
        and amount = 1000, OF a b c d e]
    by (simp add: r bal credit_session_balance)
qed

text \<open>
  C4, as stated, fails. The session was recorded with 1000 tokens; the event claims
  5000; the balance of user 42 goes from 10 to 5010.
\<close>

theorem credit_is_recorded_amount_counterexample:
  "sessions demo_store ''cs_test_1'' = Some pending_session \<and>
   tokenAmount pending_session = 1000 \<and>
   balances demo_store 42 = 10 \<and>
   balances (snd (webhook_handler configured_env
      (stub_constructEvent (completed_event (session_with ''42'' ''5000'')))
      store_storage signed_request demo_store)) 42 = 5010"
proof -
  let ?ev = "completed_event (session_with ''42'' ''5000'')"
  have "webhook_handler configured_env (stub_constructEvent ?ev) store_storage signed_request
          demo_store =
        ([received], credit_session (cs_id (data_object ?ev)) pending_session 42 5000 demo_store)"
    by (rule webhook_store_first [where secret = "''whsec_test''" and ev = ?ev])
       (simp_all add: configured_env_def stub_constructEvent_def signed_request_def
          completed_event_def resolve_userId_def resolve_tokens_def metadata_user_id_def
          metadata_tokens_def session_with_def js_or_def js_or_lit_def falsy_def demo_store_def
          pending_session_def,
        simp_all add: parse_defs)
  then show ?thesis
    by (simp add: credit_session_balance) (simp add: demo_store_def pending_session_def)
qed

text \<open>
  C4, amended: for a verified, valid completion event of a session that is not yet
  completed, the handler credits the amount parsed from the event's
  \<^verbatim>\<open>metadata.tokens\<close> to the user parsed from the event; the amount recorded in the
  session takes no part in it.
\<close>

theorem credit_is_event_amount:
  assumes "STRIPE_WEBHOOK_SECRET penv = Some secret" and "secret \<noteq> []"
    and "lib (STRIPE_SECRET_KEY penv) (body req) (stripe_signature req) secret = Inr ev"
    and "event_type ev = ''checkout.session.completed''"
    and "resolve_userId (data_object ev) = Num uid" and "resolve_tokens (data_object ev) = Num amount"
    and "0 < uid" and "0 < amount"
    and "sessions st (cs_id (data_object ev)) = Some s" and "status s \<noteq> completed"
  shows "fst (webhook_handler penv lib store_storage req st) = [\<lparr>statusCode = 200, sent = Json_received\<rparr>] \<and>
         balances (snd (webhook_handler penv lib store_storage req st)) =
           (balances st)(uid := balances st uid + amount)"
  using webhook_store_first [where lib = lib, OF assms]
  by (simp add: received_def credit_session_def)

theorem credit_is_event_amount_witness:
  "balances (snd (webhook_handler configured_env
      (stub_constructEvent (completed_event (session_with ''42'' ''5000'')))
      store_storage signed_request demo_store)) =
     (balances demo_store)(42 := balances demo_store 42 + 5000)"
proof -
  let ?ev = "completed_event (session_with ''42'' ''5000'')"
  have "fst (webhook_handler configured_env (stub_constructEvent ?ev) store_storage signed_request
          demo_store) = [\<lparr>statusCode = 200, sent = Json_received\<rparr>] \<and>
        balances (snd (webhook_handler configured_env (stub_constructEvent ?ev) store_storage
          signed_request demo_store)) = (balances demo_store)(42 := balances demo_store 42 + 5000)"
    by (rule credit_is_event_amount [where secret = "''whsec_test''" and ev = ?ev
          and s = pending_session])
       (simp_all add: configured_env_def stub_constructEvent_def signed_request_def
          completed_event_def resolve_userId_def resolve_tokens_def metadata_user_id_def
          metadata_tokens_def session_with_def js_or_def js_or_lit_def falsy_def demo_store_def
          pending_session_def,
        simp_all add: parse_defs)
  then show ?thesis by simp
qed

section \<open>The completion poller\<close>

lemma poll_nonterminal:
  "\<not> terminal x \<Longrightarrow>
   pollPaymentStatus sid x cb b = setTimeout sid 2000 (b\<lparr>lookups := lookups b + 1\<rparr>)"
  by (cases x) (simp_all add: pollPaymentStatus_def terminal_def Let_def)

lemma poll_completed:
  "returns_normally (Resolves (Some ''completed'')) cb \<Longrightarrow>
   pollPaymentStatus sid (Resolves (Some ''completed'')) cb b =
     b\<lparr>lookups := lookups b + 1, isProcessing := False,
       toasts := toasts b @ [''Payment successful!''],
       invalidations := invalidations b + 1, onSuccess_calls := onSuccess_calls b + 1\<rparr>"
  by (simp add: pollPaymentStatus_def returns_normally_def Let_def toast_def)

lemma poll_failed:
  "returns_normally (Resolves (Some ''failed'')) cb \<Longrightarrow>
   pollPaymentStatus sid (Resolves (Some ''failed'')) cb b =
     b\<lparr>lookups := lookups b + 1, isProcessing := False,
       toasts := toasts b @ [''Payment failed''], onError_calls := onError_calls b + 1\<rparr>"
  by (simp add: pollPaymentStatus_def returns_normally_def Let_def toast_def)

lemma poll_terminal:
  assumes "terminal x" and "returns_normally x cb"
  shows "timers (pollPaymentStatus sid x cb b) = timers b"
    and "\<not> isProcessing (pollPaymentStatus sid x cb b)"
    and "lookups (pollPaymentStatus sid x cb b) = lookups b + 1"
  using assms by (auto simp: terminal_def poll_completed poll_failed)

text \<open>
  After a terminal status, a function that throws takes the poll to the \<^verbatim>\<open>catch\<close>:
  \<^verbatim>\<open>isProcessing\<close> has been reset, and the next poll is scheduled all the same.
\<close>

lemma poll_terminal_throws:
  assumes "terminal x" and "\<not> returns_normally x cb"
  shows "timers (pollPaymentStatus sid x cb b) = timers b @ [(sid, 2000)]"
    and "\<not> isProcessing (pollPaymentStatus sid x cb b)"
proof -
  from assms(1) consider "x = Resolves (Some ''completed'')" | "x = Resolves (Some ''failed'')"
    by (auto simp: terminal_def)
  then have "timers (pollPaymentStatus sid x cb b) = timers b @ [(sid, 2000)] \<and>
             \<not> isProcessing (pollPaymentStatus sid x cb b)"
  proof cases
    case 1
    with assms(2) show ?thesis
      by (cases "toast_throws cb"; cases "invalidateQueries_throws cb";
          cases "onSuccess_throws cb")
         (simp_all add: returns_normally_def pollPaymentStatus_def setTimeout_def toast_def Let_def)
  next
    case 2
    with assms(2) show ?thesis
      by (cases "toast_throws cb"; cases "onError_throws cb")
         (simp_all add: returns_normally_def pollPaymentStatus_def setTimeout_def toast_def Let_def)
  qed
  then show "timers (pollPaymentStatus sid x cb b) = timers b @ [(sid, 2000)]"
    and "\<not> isProcessing (pollPaymentStatus sid x cb b)"
    by simp_all
qed

lemma step_no_timer: "timers b = [] \<Longrightarrow> step (TimerFires sid x cb) b = b"
  by simp

lemma run_no_timer: "timers b = [] \<Longrightarrow> run (map (\<lambda>x. TimerFires sid x cb) xs) b = b"
  by (induction xs) simp_all

lemma run_append: "run (es @ fs) b = run fs (run es b)"
  by (induction es arbitrary: b) simp_all

text \<open>While the lookups are not terminal, each fired poll counts one lookup and leaves
  one poll scheduled.\<close>

lemma run_nonterminal:
  assumes "\<forall>x \<in> set pre. \<not> terminal x" and "timers b = [(sid, d)]"
  shows "\<exists>d'. run (map (\<lambda>x. TimerFires sid x cb) pre) b =
           b\<lparr>lookups := lookups b + length pre, timers := [(sid, d')]\<rparr>"
  using assms
proof (induction pre arbitrary: b d)
  case Nil
  then show ?case by (intro exI [of _ d]) simp
next
  case (Cons x pre)
  have nt: "\<not> terminal x" and rest: "\<forall>x \<in> set pre. \<not> terminal x"
    using Cons.prems(1) by simp_all
  define b1 where "b1 = b\<lparr>lookups := lookups b + 1, timers := [(sid, 2000)]\<rparr>"
  have s: "step (TimerFires sid x cb) b = b1"
    using Cons.prems(2) nt by (simp add: b1_def poll_nonterminal setTimeout_def)
  have "timers b1 = [(sid, 2000)]"
    by (simp add: b1_def)
  from Cons.IH [OF rest this] obtain d' where
    "run (map (\<lambda>x. TimerFires sid x cb) pre) b1 =
       b1\<lparr>lookups := lookups b1 + length pre, timers := [(sid, d')]\<rparr>"
    by auto
  then show ?case
    by (intro exI [of _ d']) (simp add: s b1_def del: step.simps)
qed

lemma run_start:
  "\<not> falsy url \<Longrightarrow>
   run [Click, CheckoutResolved url sid True] mounted =
     mounted\<lparr>isProcessing := True, timers := [(sid, 3000)]\<rparr>"
  by (simp add: mounted_def disabled_def mutation_onSuccess_def setTimeout_def)

text \<open>
  What holds of the poller when the functions called after \<^verbatim>\<open>completed\<close> return.
  After the click and the opening of the checkout window, let the first \<open>k\<close> lookups be
  not terminal (pending, a thrown lookup error, or any status other than
  \<^verbatim>\<open>completed\<close> and \<^verbatim>\<open>failed\<close>) and the next one show \<^verbatim>\<open>completed\<close>. Then
  exactly \<open>k + 1\<close> lookups are made, \<^verbatim>\<open>isProcessing\<close> is reset and no poll is scheduled
  any more, whatever further results the server would give. A poll that sees
  \<^verbatim>\<open>pending\<close> or whose lookup throws schedules itself again after 2000 ms.
\<close>

lemma poller_stops_when_callbacks_return:
  assumes "\<not> falsy url" and "\<forall>x \<in> set pre. \<not> terminal x"
    and "returns_normally (Resolves (Some ''completed'')) cb"
  shows "lookups (run ([Click, CheckoutResolved url sid True] @
            map (\<lambda>x. TimerFires sid x cb) (pre @ Resolves (Some ''completed'') # rest)) mounted)
           = length pre + 1 \<and>
         timers (run ([Click, CheckoutResolved url sid True] @
            map (\<lambda>x. TimerFires sid x cb) (pre @ Resolves (Some ''completed'') # rest)) mounted) = [] \<and>
         \<not> isProcessing (run ([Click, CheckoutResolved url sid True] @
            map (\<lambda>x. TimerFires sid x cb) (pre @ Resolves (Some ''completed'') # rest)) mounted) \<and>
         timers (pollPaymentStatus sid (Resolves (Some ''pending'')) cb b) = timers b @ [(sid, 2000)] \<and>
         timers (pollPaymentStatus sid Throws cb b) = timers b @ [(sid, 2000)]"
proof -
  let ?b0 = "mounted\<lparr>isProcessing := True, timers := [(sid, 3000)]\<rparr>"
  let ?fire = "\<lambda>x. TimerFires sid x cb"
  let ?run = "run ([Click, CheckoutResolved url sid True] @
            map ?fire (pre @ Resolves (Some ''completed'') # rest)) mounted"
  obtain d' where pre: "run (map ?fire pre) ?b0 =
      ?b0\<lparr>lookups := lookups ?b0 + length pre, timers := [(sid, d')]\<rparr>"
    using run_nonterminal [OF assms(2), of ?b0 sid 3000 cb] by auto
  let ?b1 = "?b0\<lparr>lookups := lookups ?b0 + length pre, timers := [(sid, d')]\<rparr>"
  let ?b2 = "step (TimerFires sid (Resolves (Some ''completed'')) cb) ?b1"
  have b2: "timers ?b2 = []" "\<not> isProcessing ?b2" "lookups ?b2 = length pre + 1"
    by (simp_all add: poll_completed [OF assms(3)] mounted_def)
  have "?run = run (map ?fire (pre @ Resolves (Some ''completed'') # rest))
                 (run [Click, CheckoutResolved url sid True] mounted)"
    by (rule run_append)
  also have "\<dots> = run (map ?fire (Resolves (Some ''completed'') # rest))
                 (run (map ?fire pre) ?b0)"
    by (simp only: run_start [OF assms(1)] map_append run_append)
  also have "\<dots> = run (map ?fire rest) ?b2"
    by (simp only: pre list.map run.simps)
  also have "\<dots> = ?b2"
    using b2(1) by (rule run_no_timer)
  finally have r: "?run = ?b2" .
  have p: "timers (pollPaymentStatus sid (Resolves (Some ''pending'')) cb b) = timers b @ [(sid, 2000)]"
    by (simp add: poll_nonterminal terminal_def setTimeout_def)
  have t: "timers (pollPaymentStatus sid Throws cb b) = timers b @ [(sid, 2000)]"
    by (simp add: poll_nonterminal terminal_def setTimeout_def)
  show ?thesis
    unfolding r using b2 p t by simp
qed

text \<open>
  C8 fails when a function called after the terminal status throws. The first lookup
  shows \<^verbatim>\<open>completed\<close>, so \<open>k = 0\<close> and the claim allows one lookup; \<^verbatim>\<open>onSuccess\<close> throws
  inside the \<^verbatim>\<open>try\<close>, the \<^verbatim>\<open>catch\<close> schedules the next poll, and the poller looks the
  status up a second time and is scheduled for a third, with the toast shown and the
  property called each time.
\<close>

theorem throwing_onSuccess_repolls:
  "timers (run [Click, CheckoutResolved (Some ''https://checkout.example/cs_test_1'') ''cs_test_1'' True,
                TimerFires ''cs_test_1'' (Resolves (Some ''completed'')) onSuccess_throwing] mounted)
     = [(''cs_test_1'', 2000)] \<and>
   lookups (run [Click, CheckoutResolved (Some ''https://checkout.example/cs_test_1'') ''cs_test_1'' True,
                TimerFires ''cs_test_1'' (Resolves (Some ''completed'')) onSuccess_throwing,
                TimerFires ''cs_test_1'' (Resolves (Some ''completed'')) onSuccess_throwing] mounted)
     = 2 \<and>
   timers (run [Click, CheckoutResolved (Some ''https://checkout.example/cs_test_1'') ''cs_test_1'' True,
                TimerFires ''cs_test_1'' (Resolves (Some ''completed'')) onSuccess_throwing,
                TimerFires ''cs_test_1'' (Resolves (Some ''completed'')) onSuccess_throwing] mounted)
     = [(''cs_test_1'', 2000)] \<and>
   onSuccess_calls (run [Click, CheckoutResolved (Some ''https://checkout.example/cs_test_1'') ''cs_test_1'' True,
                TimerFires ''cs_test_1'' (Resolves (Some ''completed'')) onSuccess_throwing,
                TimerFires ''cs_test_1'' (Resolves (Some ''completed'')) onSuccess_throwing] mounted)
     = 2"
  by (simp add: mounted_def disabled_def mutation_onSuccess_def setTimeout_def falsy_def
        pollPaymentStatus_def onSuccess_throwing_def toast_def Let_def)

section \<open>The button\<close>

lemma button_inv_mounted: "button_inv mounted"
  by (simp add: button_inv_def mounted_def)

lemma scheduled_single: "length ts = 1 \<Longrightarrow> scheduled sid ts \<Longrightarrow> clear_timer sid ts = []"
  by (cases ts) auto

lemma button_inv_poll:
  assumes "isProcessing b" and "\<not> isPending b" and "timers b = []"
    and "returns_normally x cb"
  shows "button_inv (pollPaymentStatus sid x cb b)"
proof (cases "terminal x")
  case True
  then show ?thesis
    using assms by (auto simp: terminal_def poll_completed poll_failed button_inv_def)
next
  case False
  then show ?thesis
    using assms by (simp add: poll_nonterminal setTimeout_def button_inv_def)
qed

lemma button_inv_step: "button_inv b \<Longrightarrow> quiet e \<Longrightarrow> button_inv (step e b)"
proof (cases e)
  case Click
  assume "button_inv b"
  then show ?thesis
    using Click by (auto simp: button_inv_def disabled_def)
next
  case (CheckoutResolved url sid w)
  assume "button_inv b"
  then show ?thesis
    using CheckoutResolved
    by (auto simp: button_inv_def mutation_onSuccess_def setTimeout_def toast_def)
next
  case CheckoutRejected
  assume "button_inv b"
  then show ?thesis
    using CheckoutRejected by (auto simp: button_inv_def mutation_onError_def toast_def Let_def)
next
  case (TimerFires sid x cb)
  assume inv: "button_inv b" and q: "quiet e"
  show ?thesis
  proof (cases "scheduled sid (timers b)")
    case False
    with inv TimerFires show ?thesis by simp
  next
    case True
    then have "timers b \<noteq> []" by auto
    with inv have p: "isProcessing b" "\<not> isPending b" "length (timers b) = 1"
      by (auto simp: button_inv_def)
    have "button_inv (pollPaymentStatus sid x cb (b\<lparr>timers := clear_timer sid (timers b)\<rparr>))"
      using p True q TimerFires by (intro button_inv_poll) (simp_all add: scheduled_single)
    with True TimerFires show ?thesis by simp
  qed
qed

lemma button_inv_run: "button_inv b \<Longrightarrow> \<forall>e \<in> set es. quiet e \<Longrightarrow> button_inv (run es b)"
  by (induction es arbitrary: b) (simp_all add: button_inv_step del: step.simps)

lemma isProcessing_reset:
  assumes "isProcessing b" and "\<not> isProcessing (step e b)"
  shows "\<exists>sid x cb. e = TimerFires sid x cb \<and> terminal x"
proof (cases e)
  case Click
  with assms show ?thesis by (simp split: if_splits)
next
  case (CheckoutResolved url sid w)
  with assms show ?thesis
    by (simp add: mutation_onSuccess_def setTimeout_def toast_def split: if_splits)
next
  case CheckoutRejected
  with assms show ?thesis
    by (simp add: mutation_onError_def toast_def Let_def split: if_splits)
next
  case (TimerFires sid x cb)
  have "terminal x"
  proof (rule ccontr)
    assume "\<not> terminal x"
    with assms TimerFires show False
      by (simp add: poll_nonterminal setTimeout_def split: if_splits)
  qed
  with TimerFires show ?thesis by simp
qed

text \<open>Whatever the callbacks do, a checkout request is never pending while
  \<^verbatim>\<open>isProcessing\<close> is set.\<close>

lemma pending_excludes_processing_step:
  "\<not> (isPending b \<and> isProcessing b) \<Longrightarrow> \<not> (isPending (step e b) \<and> isProcessing (step e b))"
proof (cases e)
  case (TimerFires sid x cb)
  assume "\<not> (isPending b \<and> isProcessing b)"
  then show ?thesis
    using TimerFires
    by (cases x)
       (auto simp: pollPaymentStatus_def setTimeout_def toast_def Let_def split: if_splits)
qed (auto simp: disabled_def mutation_onSuccess_def mutation_onError_def setTimeout_def
       toast_def Let_def)

lemma pending_excludes_processing:
  "\<not> (isPending b \<and> isProcessing b) \<Longrightarrow> \<not> (isPending (run es b) \<and> isProcessing (run es b))"
proof (induction es arbitrary: b)
  case Nil
  then show ?case by simp
next
  case (Cons e es)
  from Cons.prems have "\<not> (isPending (step e b) \<and> isProcessing (step e b))"
    by (rule pending_excludes_processing_step)
  then show ?case
    using Cons.IH by (simp del: step.simps)
qed

text \<open>
  What holds of the button when every poll returns normally. In every state the
  component reaches from its mounting, by any sequence of clicks, settled checkout
  requests and fired polls: when a checkout request is pending or a poll is scheduled the
  button is disabled; a click on the disabled button changes nothing, so no second
  attempt starts; at most one poll is scheduled, and one is scheduled exactly while
  \<^verbatim>\<open>isProcessing\<close> is set. From any state, whatever the callbacks do, an event that
  resets \<^verbatim>\<open>isProcessing\<close> is a fired poll whose lookup shows \<^verbatim>\<open>completed\<close> or
  \<^verbatim>\<open>failed\<close>.
\<close>

lemma button_disabled_when_callbacks_return:
  assumes "\<forall>e \<in> set es. quiet e"
  shows "(isPending (run es mounted) \<or> timers (run es mounted) \<noteq> [] \<longrightarrow> disabled (run es mounted)) \<and>
   (disabled (run es mounted) \<longrightarrow> step Click (run es mounted) = run es mounted) \<and>
   length (timers (run es mounted)) \<le> 1 \<and>
   (isProcessing (run es mounted) \<longleftrightarrow> timers (run es mounted) \<noteq> []) \<and>
   (isProcessing b \<and> \<not> isProcessing (step e b) \<longrightarrow>
      (\<exists>sid x cb. e = TimerFires sid x cb \<and> terminal x))"
proof -
  have "button_inv (run es mounted)"
    using button_inv_mounted assms by (rule button_inv_run)
  then show ?thesis
    using isProcessing_reset [of b e] by (auto simp: button_inv_def disabled_def)
qed


end
